theory Spec2Isabelle
  imports Complex_Main "HOL-Library.Multiset" "HOL-Library.AList" "HOL-Library.Monad_Syntax"
begin

section \<open>JavaScript values\<close>

text \<open>
  The engine is JavaScript, and its functions branch on \<open>typeof\<close>, truthiness and
  nullishness of whatever they are handed.  Values are therefore modelled dynamically.
  A number is a finite real, an infinity or NaN; arithmetic on finite numbers is exact
  (the rounding and the overflow of IEEE doubles are outside the model).  An object is a
  plain data object: an association list of its own properties, the first binding of a
  key being the one that counts.  Arrays, functions, symbols and bigints are not values
  of the model.
\<close>

datatype jsnum = Fin real | PosInf | NegInf | NaN

datatype jsval =
    JUndefined
  | JNull
  | JBool bool
  | JNum jsnum
  | JStr string
  | JObj "(string \<times> jsval) list"

fun typeof :: "jsval \<Rightarrow> string" where
  "typeof JUndefined = ''undefined''"
| "typeof JNull = ''object''"
| "typeof (JBool _) = ''boolean''"
| "typeof (JNum _) = ''number''"
| "typeof (JStr _) = ''string''"
| "typeof (JObj _) = ''object''"

fun truthy :: "jsval \<Rightarrow> bool" where
  "truthy JUndefined = False"
| "truthy JNull = False"
| "truthy (JBool b) = b"
| "truthy (JNum (Fin r)) = (r \<noteq> 0)"
| "truthy (JNum NaN) = False"
| "truthy (JNum _) = True"
| "truthy (JStr s) = (s \<noteq> [])"
| "truthy (JObj _) = True"

fun nullish :: "jsval \<Rightarrow> bool" where
  "nullish JUndefined = True"
| "nullish JNull = True"
| "nullish _ = False"

text \<open>\<open>a ?? b\<close> and \<open>a || b\<close>.\<close>

definition coalesce :: "jsval \<Rightarrow> jsval \<Rightarrow> jsval" where
  "coalesce a b = (if nullish a then b else a)"

definition js_or :: "jsval \<Rightarrow> jsval \<Rightarrow> jsval" where
  "js_or a b = (if truthy a then a else b)"

text \<open>
  Property read \<open>v.k\<close> on a value that is neither null nor undefined.  Every key the
  engine reads this way is a statistics field name; none of them is a built-in property
  of a string, number, boolean or object prototype, so the read of a primitive, and of
  an object without the key, is \<open>undefined\<close>.
\<close>

fun get_prop :: "jsval \<Rightarrow> string \<Rightarrow> jsval" where
  "get_prop (JObj kvs) k = (case map_of kvs k of Some v \<Rightarrow> v | None \<Rightarrow> JUndefined)"
| "get_prop _ k = JUndefined"

text \<open>\<open>v.k\<close> in general: reading a property of null or undefined throws a TypeError,
  which is \<open>None\<close> here and in every function below that can throw.\<close>

definition get_throw :: "jsval \<Rightarrow> string \<Rightarrow> jsval option" where
  "get_throw v k = (if nullish v then None else Some (get_prop v k))"

text \<open>Optional chaining \<open>v?.k\<close>.\<close>

definition get_opt :: "jsval \<Rightarrow> string \<Rightarrow> jsval" where
  "get_opt v k = (if nullish v then JUndefined else get_prop v k)"

subsection \<open>Numbers\<close>

fun is_finite :: "jsnum \<Rightarrow> bool" where
  "is_finite (Fin _) = True"
| "is_finite _ = False"

text \<open>\<open>Number.isFinite(v)\<close>: true for a finite number only, without coercion.\<close>

fun Number_isFinite :: "jsval \<Rightarrow> bool" where
  "Number_isFinite (JNum n) = is_finite n"
| "Number_isFinite _ = False"

fun num_lt :: "jsnum \<Rightarrow> jsnum \<Rightarrow> bool" where
  "num_lt NaN _ = False"
| "num_lt _ NaN = False"
| "num_lt (Fin a) (Fin b) = (a < b)"
| "num_lt (Fin _) PosInf = True"
| "num_lt NegInf (Fin _) = True"
| "num_lt NegInf PosInf = True"
| "num_lt _ _ = False"

text \<open>\<open>a === b\<close> on two numbers: NaN equals nothing.\<close>

fun num_eq :: "jsnum \<Rightarrow> jsnum \<Rightarrow> bool" where
  "num_eq NaN _ = False"
| "num_eq _ NaN = False"
| "num_eq a b = (a = b)"

fun num_neg :: "jsnum \<Rightarrow> jsnum" where
  "num_neg (Fin a) = Fin (- a)"
| "num_neg PosInf = NegInf"
| "num_neg NegInf = PosInf"
| "num_neg NaN = NaN"

fun num_add :: "jsnum \<Rightarrow> jsnum \<Rightarrow> jsnum" where
  "num_add NaN _ = NaN"
| "num_add _ NaN = NaN"
| "num_add (Fin a) (Fin b) = Fin (a + b)"
| "num_add PosInf NegInf = NaN"
| "num_add NegInf PosInf = NaN"
| "num_add PosInf _ = PosInf"
| "num_add NegInf _ = NegInf"
| "num_add (Fin _) b = b"

definition num_sub :: "jsnum \<Rightarrow> jsnum \<Rightarrow> jsnum" where
  "num_sub a b = num_add a (num_neg b)"

fun num_sgn :: "jsnum \<Rightarrow> real" where
  "num_sgn (Fin a) = sgn a"
| "num_sgn PosInf = 1"
| "num_sgn NegInf = - 1"
| "num_sgn NaN = 0"

fun num_mul :: "jsnum \<Rightarrow> jsnum \<Rightarrow> jsnum" where
  "num_mul NaN _ = NaN"
| "num_mul _ NaN = NaN"
| "num_mul (Fin a) (Fin b) = Fin (a * b)"
| "num_mul a b =
     (let s = num_sgn a * num_sgn b
      in if s = 0 then NaN else if 0 < s then PosInf else NegInf)"

subsection \<open>Strings\<close>

text \<open>
  A string is a list of bytes.  \<open>toLowerCase\<close> is modelled on the ASCII letters, where
  it sets the bit of value 32; the only strings its result is compared with are \<open>over\<close>
  and \<open>under\<close>, and no character outside ASCII lower-cases to one of their letters.
\<close>

definition lower_char :: "char \<Rightarrow> char" where
  "lower_char c =
     (let n = (of_char c :: nat)
      in if 65 \<le> n \<and> n \<le> 90
         then (case c of Char b0 b1 b2 b3 b4 b5 b6 b7 \<Rightarrow> Char b0 b1 b2 b3 b4 True b6 b7)
         else c)"

definition toLowerCase :: "string \<Rightarrow> string" where
  "toLowerCase s = map lower_char s"

subsection \<open>Conversions\<close>

text \<open>
  \<open>Number(s)\<close> on a string: surrounding white space is dropped; the empty string is 0;
  then an optionally signed \<open>Infinity\<close>, an optionally signed decimal literal with
  optional fraction and exponent, or an unsigned binary, octal or hexadecimal integer;
  everything else is NaN.  White space is the ASCII white space, and the value of a
  literal is its exact value.
\<close>

definition is_ws :: "char \<Rightarrow> bool" where
  "is_ws c = ((of_char c :: nat) \<in> {9, 10, 11, 12, 13, 32})"

definition trim :: "string \<Rightarrow> string" where
  "trim s = rev (dropWhile is_ws (rev (dropWhile is_ws s)))"

definition radix_digit :: "char \<Rightarrow> nat" where
  "radix_digit c =
     (let n = (of_char c :: nat)
      in if 48 \<le> n \<and> n \<le> 57 then n - 48
         else if 97 \<le> n \<and> n \<le> 122 then n - 87
         else if 65 \<le> n \<and> n \<le> 90 then n - 55
         else 99)"

definition is_digit :: "char \<Rightarrow> bool" where
  "is_digit c = (radix_digit c < 10)"

definition digits_val :: "nat \<Rightarrow> string \<Rightarrow> nat" where
  "digits_val radix ds = foldl (\<lambda>a c. radix * a + radix_digit c) 0 ds"

definition parse_radix :: "nat \<Rightarrow> string \<Rightarrow> jsnum" where
  "parse_radix radix ds =
     (if ds \<noteq> [] \<and> list_all (\<lambda>c. radix_digit c < radix) ds
      then Fin (real (digits_val radix ds)) else NaN)"

fun split_sign :: "string \<Rightarrow> bool \<times> string" where
  "split_sign (c # cs) =
     (if c = CHR ''-'' then (True, cs) else if c = CHR ''+'' then (False, cs)
      else (False, c # cs))"
| "split_sign [] = (False, [])"

text \<open>The exponent part, as a power of ten to multiply with: absent, or \<open>e\<close> or
  \<open>E\<close>, an optional sign and at least one digit.\<close>

fun parse_exponent :: "string \<Rightarrow> real option" where
  "parse_exponent [] = Some 1"
| "parse_exponent (c # cs) =
     (if c = CHR ''e'' \<or> c = CHR ''E'' then
        (case split_sign cs of (neg, ds) \<Rightarrow>
           if ds \<noteq> [] \<and> list_all is_digit ds
           then Some (if neg then 1 / 10 ^ digits_val 10 ds else 10 ^ digits_val 10 ds)
           else None)
      else None)"

definition parse_unsigned_decimal :: "string \<Rightarrow> jsnum" where
  "parse_unsigned_decimal s =
     (if s = ''Infinity'' then PosInf
      else
        let ip = takeWhile is_digit s;
            r1 = dropWhile is_digit s;
            fp = (case r1 of c # t \<Rightarrow> if c = CHR ''.'' then takeWhile is_digit t else []
                  | [] \<Rightarrow> []);
            r2 = (case r1 of c # t \<Rightarrow> if c = CHR ''.'' then dropWhile is_digit t else r1
                  | [] \<Rightarrow> [])
        in if ip = [] \<and> fp = [] then NaN
           else (case parse_exponent r2 of
                   None \<Rightarrow> NaN
                 | Some e \<Rightarrow>
                     Fin ((real (digits_val 10 ip)
                           + real (digits_val 10 fp) / 10 ^ length fp) * e)))"

definition string_to_number :: "string \<Rightarrow> jsnum" where
  "string_to_number s0 =
     (let s = trim s0
      in if s = [] then Fin 0
         else if take 2 s \<in> {''0x'', ''0X''} then parse_radix 16 (drop 2 s)
         else if take 2 s \<in> {''0o'', ''0O''} then parse_radix 8 (drop 2 s)
         else if take 2 s \<in> {''0b'', ''0B''} then parse_radix 2 (drop 2 s)
         else (case split_sign s of (neg, r) \<Rightarrow>
                 let n = parse_unsigned_decimal r in if neg then num_neg n else n))"

text \<open>
  A plain object converts to a primitive through the inherited \<open>toString\<close>, giving
  \<open>[object Object]\<close>.  An own property called \<open>toString\<close> hides that method, and since
  no value of the model is callable the conversion then throws a TypeError.
\<close>

definition has_own :: "(string \<times> jsval) list \<Rightarrow> string \<Rightarrow> bool" where
  "has_own kvs k = (map_of kvs k \<noteq> None)"

fun to_primitive :: "jsval \<Rightarrow> jsval option" where
  "to_primitive (JObj kvs) =
     (if has_own kvs ''toString'' then None else Some (JStr ''[object Object]''))"
| "to_primitive v = Some v"

text \<open>\<open>Number(v)\<close>.\<close>

fun to_number :: "jsval \<Rightarrow> jsnum option" where
  "to_number JUndefined = Some NaN"
| "to_number JNull = Some (Fin 0)"
| "to_number (JBool b) = Some (Fin (if b then 1 else 0))"
| "to_number (JNum n) = Some n"
| "to_number (JStr s) = Some (string_to_number s)"
| "to_number (JObj kvs) = (if has_own kvs ''toString'' then None else Some NaN)"

text \<open>
  \<open>String(v)\<close>.  The decimal rendering of a finite number is the shortest one that
  reads back as the same double; it cannot be computed from a real, and is the
  parameter \<open>fmt\<close> of every function that may need it.
\<close>

fun to_string :: "(real \<Rightarrow> string) \<Rightarrow> jsval \<Rightarrow> string option" where
  "to_string fmt JUndefined = Some ''undefined''"
| "to_string fmt JNull = Some ''null''"
| "to_string fmt (JBool b) = Some (if b then ''true'' else ''false'')"
| "to_string fmt (JNum (Fin r)) = Some (fmt r)"
| "to_string fmt (JNum PosInf) = Some ''Infinity''"
| "to_string fmt (JNum NegInf) = Some ''-Infinity''"
| "to_string fmt (JNum NaN) = Some ''NaN''"
| "to_string fmt (JStr s) = Some s"
| "to_string fmt (JObj kvs) =
     (if has_own kvs ''toString'' then None else Some ''[object Object]'')"

text \<open>The binary operators \<open>a - b\<close> and \<open>a + b\<close> on arbitrary values.\<close>

definition js_sub :: "jsval \<Rightarrow> jsval \<Rightarrow> jsval option" where
  "js_sub a b = do { x \<leftarrow> to_number a; y \<leftarrow> to_number b; Some (JNum (num_sub x y)) }"

fun is_str :: "jsval \<Rightarrow> bool" where
  "is_str (JStr _) = True"
| "is_str _ = False"

definition js_add :: "(real \<Rightarrow> string) \<Rightarrow> jsval \<Rightarrow> jsval \<Rightarrow> jsval option" where
  "js_add fmt a b = do {
     pa \<leftarrow> to_primitive a;
     pb \<leftarrow> to_primitive b;
     if is_str pa \<or> is_str pb
     then do { sa \<leftarrow> to_string fmt pa; sb \<leftarrow> to_string fmt pb; Some (JStr (sa @ sb)) }
     else do { x \<leftarrow> to_number pa; y \<leftarrow> to_number pb; Some (JNum (num_add x y)) }
   }"

section \<open>Outcome Grader\<close>

text \<open>
  \<open>overUnder?.toLowerCase?.()\<close>: undefined for null and undefined, the lower-cased
  string for a string, undefined for a number or a boolean (they have no such method)
  and for an object without that property or with a nullish one.  An object whose
  \<open>toLowerCase\<close> property holds anything else makes the call throw, since no value of
  the model is callable.
\<close>

fun lowered_direction :: "jsval \<Rightarrow> jsval option" where
  "lowered_direction (JStr s) = Some (JStr (toLowerCase s))"
| "lowered_direction (JObj kvs) =
     (if nullish (get_prop (JObj kvs) ''toLowerCase'') then Some JUndefined else None)"
| "lowered_direction _ = Some JUndefined"

text \<open>\<open>determineStatus(actual, line, overUnder)\<close> of propUtilsBackend.js.\<close>

definition determineStatus :: "jsval \<Rightarrow> jsval \<Rightarrow> jsval \<Rightarrow> string option" where
  "determineStatus actual line overUnder =
     (case lowered_direction overUnder of
        None \<Rightarrow> None
      | Some direction \<Rightarrow>
          (case (actual, line) of
             (JNum a, JNum l) \<Rightarrow>
               if \<not> truthy direction then Some ''invalid''
               else if num_eq a l then Some ''push''
               else if (direction = JStr ''over'' \<and> num_lt l a)
                     \<or> (direction = JStr ''under'' \<and> num_lt a l)
                    then Some ''win'' else Some ''loss''
           | _ \<Rightarrow> Some ''invalid''))"

section \<open>Stat Extractor\<close>

subsection \<open>The alias-table extractor of propUtilsBackend.js\<close>

text \<open>\<open>num(x)\<close>: null for null and undefined, otherwise \<open>Number(x)\<close> when that is
  finite and null when it is not.\<close>

definition num :: "jsval \<Rightarrow> jsval option" where
  "num x =
     (if nullish x then Some JNull
      else do { n \<leftarrow> to_number x; Some (if is_finite n then JNum n else JNull) })"

text \<open>\<open>const [w, f = "0"] = s.split(".")\<close>: the text before the first dot, and the
  text between the first and the second dot, or \<open>0\<close> when there is no dot.\<close>

definition split_dot :: "string \<Rightarrow> string \<times> string" where
  "split_dot s =
     (takeWhile (\<lambda>c. c \<noteq> CHR ''.'') s,
      case dropWhile (\<lambda>c. c \<noteq> CHR ''.'') s of
        [] \<Rightarrow> ''0''
      | _ # t \<Rightarrow> takeWhile (\<lambda>c. c \<noteq> CHR ''.'') t)"

text \<open>\<open>ipToOuts(ip)\<close>: innings pitched such as \<open>5.2\<close> to outs; the only check on the
  whole part is \<open>Number.isNaN\<close>.\<close>

definition ipToOuts :: "(real \<Rightarrow> string) \<Rightarrow> jsval \<Rightarrow> jsval option" where
  "ipToOuts fmt ip =
     (if nullish ip then Some JNull
      else do {
        s \<leftarrow> to_string fmt ip;
        let w = fst (split_dot s);
            f = snd (split_dot s);
            whole = string_to_number w;
            frac = (if f = ''1'' then 1 else if f = ''2'' then 2 else 0)
        in Some (if whole = NaN then JNull
                 else JNum (num_add (num_mul whole (Fin 3)) (Fin frac)))
      })"

text \<open>\<open>num(x) ?? 0\<close>.\<close>

definition num_or_zero :: "jsval \<Rightarrow> jsval option" where
  "num_or_zero x = do { v \<leftarrow> num x; Some (coalesce v (JNum (Fin 0))) }"

text \<open>The \<open>switch (propType)\<close> on the batting-ish block \<open>b\<close> and the pitching-ish
  block \<open>p\<close>.\<close>

definition extract_switch ::
  "(real \<Rightarrow> string) \<Rightarrow> jsval \<Rightarrow> jsval \<Rightarrow> string \<Rightarrow> jsval option" where
  "extract_switch fmt b p t =
     (if t = ''hits'' then num (get_prop b ''hits'')
      else if t = ''strikeouts_batting'' then
        num (coalesce (coalesce (get_prop b ''strikeOuts'') (get_prop b ''strikeouts''))
               (get_prop b ''strikeouts_batting''))
      else if t = ''home_runs'' then
        num (coalesce (get_prop b ''homeRuns'') (get_prop b ''home_runs''))
      else if t = ''rbis'' then num (coalesce (get_prop b ''rbi'') (get_prop b ''rbis''))
      else if t = ''runs'' \<or> t = ''runs_scored'' then num (get_prop b ''runs'')
      else if t = ''walks'' then
        num (coalesce (get_prop b ''baseOnBalls'') (get_prop b ''walks''))
      else if t = ''stolen_bases'' then
        num (coalesce (get_prop b ''stolenBases'') (get_prop b ''stolen_bases''))
      else if t = ''doubles'' then num (get_prop b ''doubles'')
      else if t = ''triples'' then num (get_prop b ''triples'')
      else if t = ''total_bases'' then
        num (coalesce (get_prop b ''totalBases'') (get_prop b ''total_bases''))
      else if t = ''singles'' then do {
        H \<leftarrow> num_or_zero (get_prop b ''hits'');
        D \<leftarrow> num_or_zero (get_prop b ''doubles'');
        T \<leftarrow> num_or_zero (get_prop b ''triples'');
        HR \<leftarrow> num_or_zero (coalesce (get_prop b ''homeRuns'') (get_prop b ''home_runs''));
        s1 \<leftarrow> js_sub H D;
        s2 \<leftarrow> js_sub s1 T;
        sgl \<leftarrow> js_sub s2 HR;
        Some (if Number_isFinite sgl then sgl else JNull)
      }
      else if t = ''hits_runs_rbis'' then do {
        H \<leftarrow> num_or_zero (get_prop b ''hits'');
        R \<leftarrow> num_or_zero (get_prop b ''runs'');
        I \<leftarrow> num_or_zero (coalesce (get_prop b ''rbi'') (get_prop b ''rbis''));
        HR \<leftarrow> js_add fmt H R;
        js_add fmt HR I
      }
      else if t = ''runs_rbis'' then do {
        R \<leftarrow> num_or_zero (get_prop b ''runs'');
        I \<leftarrow> num_or_zero (coalesce (get_prop b ''rbi'') (get_prop b ''rbis''));
        js_add fmt R I
      }
      else if t = ''strikeouts_pitching'' then
        num (coalesce (coalesce (get_prop p ''strikeOuts'') (get_prop p ''strikeouts''))
               (get_prop p ''strikeouts_pitching''))
      else if t = ''outs_recorded'' \<or> t = ''pitching_outs'' then do {
        outs \<leftarrow> num (get_prop p ''outs'');
        if nullish outs then ipToOuts fmt (get_prop p ''inningsPitched'') else Some outs
      }
      else if t = ''earned_runs'' then
        num (coalesce (get_prop p ''earnedRuns'') (get_prop p ''earned_runs''))
      else if t = ''hits_allowed'' then
        num (coalesce (get_prop p ''hits'') (get_prop p ''hits_allowed''))
      else if t = ''walks_allowed'' then
        num (coalesce (coalesce (get_prop p ''baseOnBalls'') (get_prop p ''walks_allowed''))
               (get_prop p ''walks''))
      else if t = ''pitch_count'' then
        num (coalesce (coalesce (get_prop p ''numberOfPitches'') (get_prop p ''pitchesThrown''))
               (get_prop p ''pitches''))
      else if t = ''runs_allowed'' then num (get_prop p ''runs'')
      else Some JNull)"

text \<open>\<open>extractStatForPropType(stats, propType)\<close>.  The \<open>switch\<close> compares with
  \<open>===\<close>, so a prop type that is not a string reaches the default.\<close>

definition extractStatForPropType ::
  "(real \<Rightarrow> string) \<Rightarrow> jsval \<Rightarrow> jsval \<Rightarrow> jsval option" where
  "extractStatForPropType fmt stats propType =
     (if \<not> truthy stats \<or> typeof stats \<noteq> ''object'' then Some JNull
      else
        let b = js_or (js_or (get_prop stats ''batting'') (get_prop stats ''hitting'')) stats;
            p = js_or (get_prop stats ''pitching'') stats
        in case propType of
             JStr t \<Rightarrow> extract_switch fmt b p t
           | _ \<Rightarrow> Some JNull)"

subsection \<open>The box-score extractor of derivePropValue.js\<close>

text \<open>\<open>const { batting = {}, pitching = {} } = stats || {}\<close>: the default replaces
  an undefined property only, so a block that is null stays null.\<close>

definition destructure_default :: "jsval \<Rightarrow> string \<Rightarrow> jsval" where
  "destructure_default src k =
     (let v = get_prop src k in if v = JUndefined then JObj [] else v)"

definition derive_switch ::
  "(real \<Rightarrow> string) \<Rightarrow> jsval \<Rightarrow> jsval \<Rightarrow> string \<Rightarrow> jsval option" where
  "derive_switch fmt batting pitching t =
     (if t = ''hits'' then get_throw batting ''hits''
      else if t = ''runs'' \<or> t = ''runs_scored'' then get_throw batting ''runs''
      else if t = ''rbis'' then get_throw batting ''rbi''
      else if t = ''home_runs'' then get_throw batting ''homeRuns''
      else if t = ''stolen_bases'' then get_throw batting ''stolenBases''
      else if t = ''walks'' then get_throw batting ''baseOnBalls''
      else if t = ''strikeouts_batting'' then get_throw batting ''strikeOuts''
      else if t = ''total_bases'' then get_throw batting ''totalBases''
      else if t = ''hits_runs_rbis'' then
        (let h = get_opt batting ''hits'';
             r = get_opt batting ''runs'';
             i = get_opt batting ''rbi''
         in if \<not> (typeof h = ''number'' \<or> typeof r = ''number'' \<or> typeof i = ''number'')
            then Some JNull
            else do {
              hr \<leftarrow> js_add fmt (coalesce h (JNum (Fin 0))) (coalesce r (JNum (Fin 0)));
              js_add fmt hr (coalesce i (JNum (Fin 0)))
            })
      else if t = ''runs_rbis'' then do {
        r \<leftarrow> get_throw batting ''runs'';
        i \<leftarrow> get_throw batting ''rbi'';
        js_add fmt r i
      }
      else if t = ''singles'' then do {
        h \<leftarrow> get_throw batting ''hits'';
        d \<leftarrow> get_throw batting ''doubles'';
        s1 \<leftarrow> js_sub h d;
        tr \<leftarrow> get_throw batting ''triples'';
        s2 \<leftarrow> js_sub s1 tr;
        hr \<leftarrow> get_throw batting ''homeRuns'';
        js_sub s2 hr
      }
      else if t = ''doubles'' then get_throw batting ''doubles''
      else if t = ''triples'' then get_throw batting ''triples''
      else if t = ''strikeouts_pitching'' then get_throw pitching ''strikeOuts''
      else if t = ''walks_allowed'' then get_throw pitching ''baseOnBalls''
      else if t = ''hits_allowed'' then get_throw pitching ''hits''
      else if t = ''earned_runs'' then get_throw pitching ''earnedRuns''
      else if t = ''outs_recorded'' then get_throw pitching ''outs''
      else Some JUndefined)"

text \<open>\<open>derivePropValue(propType, stats)\<close>; its default branch is a bare
  \<open>return\<close>, that is undefined.\<close>

definition derivePropValue ::
  "(real \<Rightarrow> string) \<Rightarrow> jsval \<Rightarrow> jsval \<Rightarrow> jsval option" where
  "derivePropValue fmt propType stats =
     (let src = js_or stats (JObj []);
          batting = destructure_default src ''batting'';
          pitching = destructure_default src ''pitching''
      in case propType of
           JStr t \<Rightarrow> derive_switch fmt batting pitching t
         | _ \<Rightarrow> Some JUndefined)"

section \<open>Participation Classifier\<close>

text \<open>\<open>Object.values(v)\<close> of a value that is neither null nor undefined: the values
  of an object's own properties, the characters of a string, nothing for a number or
  a boolean.\<close>

fun object_values :: "jsval \<Rightarrow> jsval list" where
  "object_values (JObj kvs) = map snd (AList.clearjunk kvs)"
| "object_values (JStr s) = map (\<lambda>c. JStr [c]) s"
| "object_values _ = []"

text \<open>\<open>typeof v === "number" && v > 0\<close>.\<close>

fun positive_number :: "jsval \<Rightarrow> bool" where
  "positive_number (JNum n) = num_lt (Fin 0) n"
| "positive_number _ = False"

text \<open>\<open>a && b\<close>.\<close>

definition js_and :: "jsval \<Rightarrow> jsval \<Rightarrow> jsval" where
  "js_and a b = (if truthy a then b else a)"

text \<open>\<open>didPlayerParticipate(stats)\<close> of playerUtilsBackend.js.  The result is the
  value of \<open>hasBattingStats || hasPitchingStats\<close>, which need not be a boolean.\<close>

definition didPlayerParticipate :: "jsval \<Rightarrow> jsval" where
  "didPlayerParticipate stats =
     (if \<not> truthy stats \<or> typeof stats \<noteq> ''object'' then JBool False
      else
        let hasBattingStats =
              js_and (get_prop stats ''batting'')
                (JBool (list_ex positive_number (object_values (get_prop stats ''batting''))));
            hasPitchingStats =
              js_and (get_prop stats ''pitching'')
                (JBool (list_ex positive_number (object_values (get_prop stats ''pitching''))))
        in js_or hasBattingStats hasPitchingStats)"

section \<open>Rolling Feature Engine\<close>

subsection \<open>\<open>getRollingAverage\<close> of propUtilsBackend.js\<close>

text \<open>\<open>xs.slice(0, e)\<close>: the end is converted to an integer by truncation, NaN
  counting as 0; a negative end counts from the end of the array.\<close>

definition slice0 :: "jsval \<Rightarrow> 'a list \<Rightarrow> 'a list option" where
  "slice0 e xs =
     (if e = JUndefined then Some xs
      else do {
        n \<leftarrow> to_number e;
        Some (case n of
                NaN \<Rightarrow> []
              | PosInf \<Rightarrow> xs
              | NegInf \<Rightarrow> []
              | Fin r \<Rightarrow>
                  let i = (if 0 \<le> r then \<lfloor>r\<rfloor> else \<lceil>r\<rceil>)
                  in if i < 0 then take (nat (int (length xs) + i)) xs else take (nat i) xs)
      })"

text \<open>A number divided by a positive count.\<close>

fun num_div_nat :: "jsnum \<Rightarrow> nat \<Rightarrow> jsnum" where
  "num_div_nat (Fin a) n = Fin (a / real n)"
| "num_div_nat v n = v"

fun number_of :: "jsval \<Rightarrow> jsnum option" where
  "number_of (JNum n) = Some n"
| "number_of _ = None"

text \<open>
  \<open>getRollingAverage(history, propType, windowSize)\<close>.  The history is \<open>None\<close> when
  the first argument is not an array.  The function has no date parameter: it averages
  over the first \<open>windowSize\<close> entries of whatever history it is given.
\<close>

definition getRollingAverage ::
  "(real \<Rightarrow> string) \<Rightarrow> jsval list option \<Rightarrow> jsval \<Rightarrow> jsval \<Rightarrow> jsval option" where
  "getRollingAverage fmt history propType windowSize =
     (case history of
        None \<Rightarrow> Some JNull
      | Some h \<Rightarrow>
          if \<not> truthy propType then Some JNull
          else do {
            recent \<leftarrow> slice0 windowSize h;
            extracted \<leftarrow>
              those (map (\<lambda>game. extractStatForPropType fmt (get_opt game ''stats'') propType)
                       recent);
            let values = List.map_filter number_of extracted
            in Some (if values = [] then JNull
                     else JNum (num_div_nat (foldl num_add (Fin 0) values) (length values)))
          })"

subsection \<open>\<open>getDerivedStats\<close>\<close>

text \<open>
  A \<open>Date\<close> is an instant, in milliseconds since the epoch, or \<open>None\<close> for an invalid
  date.  Every comparison with an invalid date is false.  A date-only string parses to
  the midnight at which its day begins; a string with a time of day parses to that
  instant of the day.
\<close>

type_synonym jsdate = "int option"

definition ms_per_day :: int where
  "ms_per_day = 86400000"

fun date_lt :: "jsdate \<Rightarrow> jsdate \<Rightarrow> bool" where
  "date_lt (Some a) (Some b) = (a < b)"
| "date_lt _ _ = False"

fun date_ge :: "jsdate \<Rightarrow> jsdate \<Rightarrow> bool" where
  "date_ge (Some a) (Some b) = (b \<le> a)"
| "date_ge _ _ = False"

text \<open>\<open>fromDate = new Date(now); fromDate.setDate(now.getDate() - days)\<close>: the
  same time of day, \<open>days\<close> calendar days earlier.  A calendar day is taken as
  86 400 000 ms, which leaves changes of the clock out.\<close>

definition days_before :: "jsdate \<Rightarrow> nat \<Rightarrow> jsdate" where
  "days_before now days = map_option (\<lambda>t. t - int days * ms_per_day) now"

text \<open>
  A row of resolved props, with the columns the engines read; a function is indifferent
  to the columns it does not read.  An \<open>outcome\<close> that is not a string behaves as a
  string other than \<open>win\<close> and \<open>loss\<close>.  Then a player's entry and a game of the
  box-score cache: \<open>person_id\<close> is \<open>String(p?.person?.id)\<close>, and the \<open>gameDate\<close> of a
  box is \<open>None\<close> when the box has no date string, and otherwise the date that string
  parses to.
\<close>

record prop_row =
  player_id :: string
  prop_type :: string
  prop_source :: string
  outcome :: string
  game_date :: jsdate
  prop_value :: jsval

record box_player =
  person_id :: string
  stats :: jsval

record box =
  gameDate :: "jsdate option"
  home_players :: "(string \<times> box_player) list"
  away_players :: "(string \<times> box_player) list"

text \<open>The \<open>cache\<close> argument as \<open>sourceMode\<close> reads it: the map from player id to his
  rows in history mode; the boxes of the map in boxscore mode, or \<open>None\<close> when the
  cache has no \<open>entries\<close> method; nothing is read in any other mode.\<close>

datatype source =
    History "(string \<times> prop_row list) list"
  | Boxscore "box list option"
  | OtherMode

definition VALID_PROP_TYPES :: "string list" where
  "VALID_PROP_TYPES =
     [''hits'', ''strikeouts_batting'', ''home_runs'', ''rbis'', ''runs'', ''total_bases'',
      ''walks'', ''stolen_bases'', ''strikeouts_pitching'', ''outs_recorded'',
      ''earned_runs'', ''hits_allowed'', ''walks_allowed'', ''pitching_outs'',
      ''pitch_count'', ''runs_allowed'', ''singles'', ''doubles'', ''triples'']"

text \<open>The running \<open>total\<close> and \<open>count\<close> of the fallback computation.\<close>

type_synonym tally = "real \<times> nat"

definition add_value :: "jsval \<Rightarrow> tally \<Rightarrow> tally" where
  "add_value v acc =
     (case v of
        JNum (Fin r) \<Rightarrow> (fst acc + r, Suc (snd acc))
      | _ \<Rightarrow> acc)"

text \<open>One turn of the history loop: a row dated on or after \<open>now\<close> is skipped, then
  a row of another prop type; a finite value is added.\<close>

definition history_step :: "jsdate \<Rightarrow> string \<Rightarrow> prop_row \<Rightarrow> tally \<Rightarrow> tally" where
  "history_step now propType row acc =
     (if date_ge (game_date row) now then acc
      else if prop_type row \<noteq> propType then acc
      else add_value (prop_value row) acc)"

definition history_tally :: "jsdate \<Rightarrow> string \<Rightarrow> prop_row list \<Rightarrow> tally" where
  "history_tally now propType rows = fold (history_step now propType) rows (0, 0)"

text \<open>\<open>{...a, ...b}\<close> and \<open>Object.assign\<close>: each own property of the source is
  written to the target, replacing the value of a key that is there and appending a
  new key.\<close>

definition spread_into ::
  "(string \<times> 'a) list \<Rightarrow> (string \<times> 'a) list \<Rightarrow> (string \<times> 'a) list" where
  "spread_into target src = fold (\<lambda>(k, v). AList.update k v) (AList.clearjunk src) target"

text \<open>\<open>s.includes(pat)\<close>.\<close>

fun includes_str :: "string \<Rightarrow> string \<Rightarrow> bool" where
  "includes_str [] pat = (pat = [])"
| "includes_str (c # cs) pat = (take (length pat) (c # cs) = pat \<or> includes_str cs pat)"

text \<open>\<open>Object.keys(v).length\<close> of a value that is neither null nor undefined.\<close>

fun own_key_count :: "jsval \<Rightarrow> nat" where
  "own_key_count (JObj kvs) = length (AList.clearjunk kvs)"
| "own_key_count (JStr s) = length s"
| "own_key_count _ = 0"

text \<open>
  One turn of the box-score loop.  A box without a date string, a box dated before
  \<open>fromDate\<close> or on or after \<open>now\<close>, a box without the player and a player without
  the stat block are skipped.  Reading \<open>player.stats.batting\<close> throws when the player
  has no \<open>stats\<close>.
\<close>

definition box_step ::
  "(real \<Rightarrow> string) \<Rightarrow> string \<Rightarrow> jsdate \<Rightarrow> jsdate \<Rightarrow> string \<Rightarrow> box \<Rightarrow> tally \<Rightarrow> tally option"
  where
  "box_step fmt playerId now fromDate propType bx acc =
     (case gameDate bx of
        None \<Rightarrow> Some acc
      | Some boxDate \<Rightarrow>
          if date_lt boxDate fromDate \<or> date_ge boxDate now then Some acc
          else
            (case List.find (\<lambda>p. person_id p = playerId)
                    (map snd (spread_into (spread_into [] (home_players bx)) (away_players bx)))
             of
               None \<Rightarrow> Some acc
             | Some player \<Rightarrow>
                 let hasPitch =
                       (truthy (get_opt (stats player) ''pitching'')
                        \<and> 0 < own_key_count (get_opt (stats player) ''pitching''))
                 in do {
                   statBlock \<leftarrow>
                     (if hasPitch \<and> includes_str propType ''pitching''
                      then get_throw (stats player) ''pitching''
                      else get_throw (stats player) ''batting'');
                   if \<not> truthy statBlock then Some acc
                   else do {
                     val \<leftarrow> extractStatForPropType fmt statBlock (JStr propType);
                     Some (add_value val acc)
                   }
                 }))"

fun box_loop :: "(box \<Rightarrow> tally \<Rightarrow> tally option) \<Rightarrow> box list \<Rightarrow> tally \<Rightarrow> tally option" where
  "box_loop f [] acc = Some acc"
| "box_loop f (bx # bxs) acc = do { acc' \<leftarrow> f bx acc; box_loop f bxs acc' }"

text \<open>
  The fallback computation for one key.  \<open>None\<close> is every way in which the key is left
  unset before the count is looked at: the \<open>continue\<close> on a cache without entries and
  an exception, which the \<open>catch\<close> around the key swallows.  In history mode
  \<open>fromDate\<close> is computed and not read.
\<close>

definition fallback_tally ::
  "(real \<Rightarrow> string) \<Rightarrow> string \<Rightarrow> jsdate \<Rightarrow> source \<Rightarrow> nat \<Rightarrow> string \<Rightarrow> tally option" where
  "fallback_tally fmt playerId now src days propType =
     (let fromDate = days_before now days
      in case src of
           History cache \<Rightarrow>
             Some (history_tally now propType
                     (case map_of cache playerId of Some rows \<Rightarrow> rows | None \<Rightarrow> []))
         | Boxscore None \<Rightarrow> None
         | Boxscore (Some boxes) \<Rightarrow>
             box_loop (box_step fmt playerId now fromDate propType) boxes (0, 0)
         | OtherMode \<Rightarrow> Some (0, 0))"

text \<open>
  The value stored under one key, if any.  The first attempt calls \<open>getRollingAverage\<close>
  with the database client where the history is expected, the player id where the
  prop type is expected and the prop type where the window size is expected.
\<close>

definition rolling_value ::
  "(real \<Rightarrow> string) \<Rightarrow> string \<Rightarrow> jsdate \<Rightarrow> source \<Rightarrow> nat \<Rightarrow> string \<Rightarrow> real option" where
  "rolling_value fmt playerId now src days propType =
     (case getRollingAverage fmt None (JStr playerId) (JStr propType) of
        None \<Rightarrow> None
      | Some (JNum (Fin avg)) \<Rightarrow> Some avg
      | Some _ \<Rightarrow>
          (case fallback_tally fmt playerId now src days propType of
             None \<Rightarrow> None
           | Some (tot, cnt) \<Rightarrow> if 0 < cnt then Some (tot / real cnt) else None))"

fun show_nat :: "nat \<Rightarrow> string" where
  "show_nat n =
     (if n < 10 then [''0123456789'' ! n]
      else show_nat (n div 10) @ [''0123456789'' ! (n mod 10)])"

declare show_nat.simps [simp del]



section \<open>Streak Engine\<close>

text \<open>\<open>normalizePropType(label)\<close>: lower case, parentheses removed, every run of
  white space replaced by one underscore.\<close>

fun underscore_ws :: "bool \<Rightarrow> string \<Rightarrow> string" where
  "underscore_ws prev [] = []"
| "underscore_ws prev (c # cs) =
     (if is_ws c then (if prev then underscore_ws True cs else CHR ''_'' # underscore_ws True cs)
      else c # underscore_ws False cs)"

definition normalizePropType :: "string \<Rightarrow> string" where
  "normalizePropType label =
     underscore_ws False
       (filter (\<lambda>c. c \<noteq> CHR ''('' \<and> c \<noteq> CHR '')'') (toLowerCase label))"

datatype streak_profile =
  StreakProfile (profile_player_id: string) (profile_prop_type: string)
    (profile_prop_source: string) (streak_type: string) (streak_count: nat)

definition win_or_loss :: "string \<Rightarrow> bool" where
  "win_or_loss s = (s = ''win'' \<or> s = ''loss'')"

subsection \<open>runStreakBackfillFromTraining.js\<close>

definition mapOutcomeToStreakType :: "string \<Rightarrow> string" where
  "mapOutcomeToStreakType s =
     (if s = ''win'' then ''hot'' else if s = ''loss'' then ''cold'' else ''neutral'')"

text \<open>The loop over \<open>props\<close>, from index \<open>i\<close> on, on \<open>currentStreak\<close> and
  \<open>currentType\<close> (\<open>None\<close> is the initial null).\<close>

fun backfill_walk :: "nat \<Rightarrow> prop_row list \<Rightarrow> nat \<times> string option \<Rightarrow> nat \<times> string option"
  where
  "backfill_walk i [] st = st"
| "backfill_walk i (r # rs) st =
     backfill_walk (Suc i) rs
       (if \<not> win_or_loss (outcome r) then st
        else if i = 0 \<or> Some (outcome r) = snd st then (fst st + 1, Some (outcome r))
        else (1, Some (outcome r)))"

text \<open>\<open>computeStreaks(props)\<close> of the backfill script; \<open>props\<close> arrives ordered by
  game date, most recent first, and \<open>newest\<close> is the source's \<open>last = props[0]\<close>.\<close>

definition computeStreaks_backfill :: "prop_row list \<Rightarrow> streak_profile list" where
  "computeStreaks_backfill props =
     (case backfill_walk 0 props (0, None) of
        (currentStreak, currentType) \<Rightarrow>
          (case (props, currentType) of
             (newest # _, Some ty) \<Rightarrow>
               if win_or_loss ty \<and> 0 < currentStreak
               then [StreakProfile (player_id newest) (normalizePropType (prop_type newest))
                       (prop_source newest) (mapOutcomeToStreakType ty) currentStreak]
               else []
           | _ \<Rightarrow> []))"

subsection \<open>generatePlayerStreakProfiles.js\<close>

text \<open>Step 1: the rows are grouped under the key built from player, normalised prop
  type and source; a row without a player id is dropped.\<close>

definition group_rows :: "prop_row list \<Rightarrow> (string \<times> prop_row list) list" where
  "group_rows rows =
     fold (\<lambda>row grouped.
            if player_id row = [] \<or> player_id row = ''None'' then grouped
            else
              let pt = normalizePropType (prop_type row);
                  key = player_id row @ ''_'' @ pt @ ''_'' @ prop_source row;
                  entries = (case map_of grouped key of Some es \<Rightarrow> es | None \<Rightarrow> [])
              in AList.update key (entries @ [row\<lparr>prop_type := pt\<rparr>]) grouped)
       rows []"

text \<open>\<open>entries.sort((a, b) => new Date(a.game_date) - new Date(b.game_date))\<close>: a
  stable sort by ascending date.  A difference with an invalid date is NaN, which the
  sort reads as equal.\<close>

fun insert_by_date :: "prop_row \<Rightarrow> prop_row list \<Rightarrow> prop_row list" where
  "insert_by_date r [] = [r]"
| "insert_by_date r (x # xs) =
     (if \<not> date_lt (game_date x) (game_date r) then r # x # xs
      else x # insert_by_date r xs)"

definition sort_by_date :: "prop_row list \<Rightarrow> prop_row list" where
  "sort_by_date rows = foldr insert_by_date rows []"

text \<open>Step 2, the walk over the sorted entries of one group, on \<open>streakType\<close> and
  \<open>streakCount\<close>.\<close>

definition profile_step :: "prop_row \<Rightarrow> string option \<times> nat \<Rightarrow> string option \<times> nat" where
  "profile_step entry st =
     (case fst st of
        None \<Rightarrow> (Some (if outcome entry = ''win'' then ''hot'' else ''cold''), 1)
      | Some ty \<Rightarrow>
          if (ty = ''hot'' \<and> outcome entry = ''win'') \<or> (ty = ''cold'' \<and> outcome entry = ''loss'')
          then (Some ty, snd st + 1)
          else (Some (if outcome entry = ''win'' then ''hot'' else ''cold''), 1))"

text \<open>A group with fewer than two entries is skipped.\<close>

definition group_profile :: "prop_row list \<Rightarrow> streak_profile list" where
  "group_profile entries =
     (if length entries < 2 then []
      else
        let sorted_entries = sort_by_date entries;
            final = last sorted_entries
        in case fold profile_step sorted_entries (None, 0) of
             (Some ty, n) \<Rightarrow>
               [StreakProfile (player_id final) (prop_type final) (prop_source final) ty n]
           | (None, n) \<Rightarrow> [])"

definition computeStreaks_profiles :: "prop_row list \<Rightarrow> streak_profile list" where
  "computeStreaks_profiles resolvedProps =
     concat (map (\<lambda>(key, entries). group_profile entries) (group_rows resolvedProps))"

section \<open>Play-by-play\<close>

text \<open>
  One play of a game's live feed, with the fields the engine reads: the ids under
  \<open>matchup\<close>, the event type, rbi and scores under \<open>result\<close>, the runners and the outs
  of \<open>count\<close>.  \<open>None\<close> is an absent field.  Of a runner the engine reads whether
  \<open>details.isScoringEvent\<close> is truthy, and \<open>details.event\<close>.
\<close>

record runner =
  isScoringEvent :: bool
  details_event :: "string option"

record play =
  batter_id :: "int option"
  pitcher_id :: "int option"
  eventType :: "string option"
  result_rbi :: "int option"
  awayScore :: "int option"
  homeScore :: "int option"
  runners :: "runner list option"
  count_outs :: "int option"

section \<open>Matchup Aggregator\<close>

record bvp_stats =
  pa :: int
  ab :: int
  hits :: int
  home_runs :: int
  strikeouts :: int
  walks :: int
  rbi :: int
  total_bases :: int

definition non_ab_events :: "string list" where
  "non_ab_events = [''walk'', ''hit_by_pitch'', ''sac_bunt'', ''sac_fly'', ''catcher_interf'']"

text \<open>The \<open>switch (result)\<close> of the aggregation loop.\<close>

definition bvp_event :: "string \<Rightarrow> bvp_stats \<Rightarrow> bvp_stats" where
  "bvp_event ev s =
     (if ev = ''single'' then s\<lparr>hits := hits s + 1, total_bases := total_bases s + 1\<rparr>
      else if ev = ''double'' then s\<lparr>hits := hits s + 1, total_bases := total_bases s + 2\<rparr>
      else if ev = ''triple'' then s\<lparr>hits := hits s + 1, total_bases := total_bases s + 3\<rparr>
      else if ev = ''home_run'' then
        s\<lparr>hits := hits s + 1, home_runs := home_runs s + 1, total_bases := total_bases s + 4\<rparr>
      else if ev = ''walk'' then s\<lparr>walks := walks s + 1\<rparr>
      else if ev = ''strikeout'' then s\<lparr>strikeouts := strikeouts s + 1\<rparr>
      else s)"

text \<open>One turn of the loop: a play without an event type is passed over; \<open>rbi\<close> grows
  by \<open>play.result?.rbi || 0\<close>.\<close>

definition bvp_step :: "play \<Rightarrow> bvp_stats \<Rightarrow> bvp_stats" where
  "bvp_step pl s =
     (case eventType pl of
        None \<Rightarrow> s
      | Some ev \<Rightarrow>
          if ev = [] then s
          else
            let s1 = s\<lparr>pa := pa s + 1\<rparr>;
                s2 = (if ev \<notin> set non_ab_events then s1\<lparr>ab := ab s1 + 1\<rparr> else s1);
                s3 = bvp_event ev s2
            in s3\<lparr>rbi := rbi s3 + (case result_rbi pl of Some n \<Rightarrow> n | None \<Rightarrow> 0)\<rparr>)"

definition bvp_zero :: bvp_stats where
  "bvp_zero =
     \<lparr>pa = 0, ab = 0, hits = 0, home_runs = 0, strikeouts = 0, walks = 0, rbi = 0,
      total_bases = 0\<rparr>"

text \<open>\<open>computeBvpStats(batterId, pitcherId, allPlays)\<close>; \<open>None\<close> is the null returned
  when no play matches the pair.\<close>

definition computeBvpStats :: "int option \<Rightarrow> int option \<Rightarrow> play list \<Rightarrow> bvp_stats option" where
  "computeBvpStats batterId pitcherId allPlays =
     (let relevantPlays =
            filter (\<lambda>p. batter_id p = batterId \<and> pitcher_id p = pitcherId) allPlays
      in if length relevantPlays = 0 then None
         else Some (fold bvp_step relevantPlays bvp_zero))"

section \<open>Resolution Chain\<close>

subsection \<open>extractStatFromPlays.js\<close>

text \<open>\<open>obj.k = (obj.k || 0) + n\<close> on a tally object, whose values are numbers.\<close>

definition bump :: "string \<Rightarrow> int \<Rightarrow> (string \<times> jsval) list \<Rightarrow> (string \<times> jsval) list" where
  "bump k n obj =
     (let old = (case map_of obj k of
                   Some (JNum x) \<Rightarrow> if truthy (JNum x) then x else Fin 0
                 | _ \<Rightarrow> Fin 0)
      in AList.update k (JNum (num_add old (Fin (real_of_int n)))) obj)"

definition rbi_truthy :: "play \<Rightarrow> bool" where
  "rbi_truthy pl = (case result_rbi pl of Some n \<Rightarrow> n \<noteq> 0 | None \<Rightarrow> False)"

definition some_runner :: "(runner \<Rightarrow> bool) \<Rightarrow> play \<Rightarrow> bool" where
  "some_runner P pl = (case runners pl of Some rs \<Rightarrow> list_ex P rs | None \<Rightarrow> False)"

definition positive :: "int option \<Rightarrow> bool" where
  "positive v = (case v of Some n \<Rightarrow> 0 < n | None \<Rightarrow> False)"

text \<open>The batting side of one play.\<close>

definition batting_events :: "play \<Rightarrow> (string \<times> jsval) list \<Rightarrow> (string \<times> jsval) list" where
  "batting_events pl bat =
     (let ev = eventType pl;
          b1 = (if ev = Some ''single'' then bump ''hits'' 1 (bump ''singles'' 1 bat)
                else if ev = Some ''double'' then bump ''hits'' 1 (bump ''doubles'' 1 bat)
                else if ev = Some ''triple'' then bump ''hits'' 1 (bump ''triples'' 1 bat)
                else if ev = Some ''home_run'' then
                  bump ''rbis'' (if rbi_truthy pl then the (result_rbi pl) else 1)
                    (bump ''hits'' 1 (bump ''home_runs'' 1 bat))
                else if ev = Some ''walk'' \<or> ev = Some ''intent_walk'' then
                  bump ''base_on_balls'' 1 bat
                else if ev = Some ''strikeout'' then bump ''strikeouts'' 1 bat
                else if ev = Some ''hit_by_pitch'' then bump ''hit_by_pitch'' 1 bat
                else bat);
          b2 = (if rbi_truthy pl then bump ''rbis'' (the (result_rbi pl)) b1 else b1);
          b3 = (if (positive (awayScore pl) \<or> positive (homeScore pl))
                   \<and> some_runner isScoringEvent pl
                then bump ''runs'' 1 b2 else b2)
      in if some_runner (\<lambda>r. details_event r = Some ''stolen_base'') pl
         then bump ''stolen_bases'' 1 b3 else b3)"

text \<open>The pitching side of one play.\<close>

definition pitching_events :: "play \<Rightarrow> (string \<times> jsval) list \<Rightarrow> (string \<times> jsval) list" where
  "pitching_events pl pit =
     (let ev = eventType pl;
          p1 = (if ev = Some ''strikeout'' then bump ''strikeouts'' 1 pit
                else if ev = Some ''walk'' \<or> ev = Some ''intent_walk'' then
                  bump ''walks_allowed'' 1 pit
                else if ev = Some ''hit_by_pitch'' then bump ''hit_batters'' 1 pit
                else if ev \<in> {Some ''single'', Some ''double'', Some ''triple'', Some ''home_run''}
                then bump ''hits_allowed'' 1 pit
                else pit);
          p2 = (if rbi_truthy pl then bump ''earned_runs'' (the (result_rbi pl)) p1 else p1)
      in if positive (count_outs pl) then bump ''outs_recorded'' (the (count_outs pl)) p2
         else p2)"

definition plays_step ::
  "int option \<Rightarrow> play \<Rightarrow> (string \<times> jsval) list \<times> (string \<times> jsval) list
     \<Rightarrow> (string \<times> jsval) list \<times> (string \<times> jsval) list" where
  "plays_step playerId pl st =
     (let bat = (if batter_id pl = playerId then batting_events pl (fst st) else fst st);
          pit = (if pitcher_id pl = playerId then pitching_events pl (snd st) else snd st)
      in (bat, pit))"

text \<open>\<open>extractStatFromPlays(plays, playerId)\<close>: the object
  \<open>{ batting: {...}, pitching: {...} }\<close>.\<close>

definition extractStatFromPlays :: "play list \<Rightarrow> int option \<Rightarrow> jsval" where
  "extractStatFromPlays plays playerId =
     (case fold (plays_step playerId) plays ([], []) of
        (bat, pit) \<Rightarrow> JObj [(''batting'', JObj bat), (''pitching'', JObj pit)])"

subsection \<open>\<open>flattenPlayerBoxscore\<close> of playerUtilsBackend.js\<close>

text \<open>The own enumerable properties of a value that is neither null nor undefined:
  those of an object, the indexed characters of a string.\<close>

fun own_props :: "jsval \<Rightarrow> (string \<times> jsval) list" where
  "own_props (JObj kvs) = AList.clearjunk kvs"
| "own_props (JStr s) = zip (map show_nat [0..<length s]) (map (\<lambda>c. JStr [c]) s)"
| "own_props _ = []"

definition assign_if :: "jsval \<Rightarrow> (string \<times> jsval) list \<Rightarrow> (string \<times> jsval) list" where
  "assign_if blk flattened =
     (if truthy blk then spread_into flattened (own_props blk) else flattened)"

text \<open>
  \<open>flattenPlayerBoxscore(boxscore)\<close>, as both callers call it, with one argument.
  Without \<open>gameData\<close>, \<open>getTeamAbbreviationFromBoxscore\<close> finds the player on neither
  side and gives null.
\<close>

definition flattenPlayerBoxscore :: "jsval \<Rightarrow> jsval" where
  "flattenPlayerBoxscore boxscore =
     (let sts = js_or (get_opt boxscore ''stats'') (JObj []);
          f0 = spread_into [] (own_props sts);
          f1 = assign_if (get_prop sts ''pitching'') f0;
          f2 = assign_if (get_prop sts ''batting'') f1;
          f3 = assign_if (get_prop sts ''fielding'') f2;
          f4 = assign_if (get_prop sts ''running'') f3;
          f5 = AList.update ''player_id'' (get_opt (get_opt boxscore ''person'') ''id'') f4
      in JObj (AList.update ''team_abbr'' JNull f5))"

subsection \<open>statResolvers.js and getStatFromLiveFeed.js\<close>

definition any_number_field :: "jsval \<Rightarrow> string list \<Rightarrow> bool" where
  "any_number_field blk ks = list_ex (\<lambda>k. typeof (get_prop blk k) = ''number'') ks"

text \<open>\<open>hasMeaningfulStats(stats)\<close>.  The destructuring default leaves a null block
  null, and the first read of a field of it throws.\<close>

definition hasMeaningfulStats :: "jsval \<Rightarrow> bool option" where
  "hasMeaningfulStats sts =
     (if \<not> truthy sts \<or> typeof sts \<noteq> ''object'' then Some False
      else
        let batting = destructure_default sts ''batting'';
            pitching = destructure_default sts ''pitching''
        in if nullish batting \<or> nullish pitching then None
           else Some (any_number_field batting
                        [''hits'', ''runs'', ''rbi'', ''totalBases'', ''baseOnBalls'',
                         ''strikeOuts'', ''homeRuns'', ''doubles'', ''triples'', ''stolenBases'']
                      \<or> any_number_field pitching
                          [''strikeOuts'', ''baseOnBalls'', ''hits'', ''earnedRuns'', ''outs'']))"

definition PITCHING_PROPS :: "string list" where
  "PITCHING_PROPS =
     [''strikeouts_pitching'', ''walks_allowed'', ''earned_runs'', ''outs_recorded'',
      ''hits_allowed'']"

text \<open>
  \<open>getStatFromLiveFeed(gameId, playerId, propType)\<close>.  The argument \<open>live\<close> is the
  \<open>allPlays\<close> array of the fetched feed, or \<open>None\<close> when the fetch fails or the feed
  has no such array.  Whatever is thrown after the fetch is caught and gives null.
\<close>

definition getStatFromLiveFeed ::
  "(real \<Rightarrow> string) \<Rightarrow> play list option \<Rightarrow> int option \<Rightarrow> string \<Rightarrow> jsval" where
  "getStatFromLiveFeed fmt live playerId propType =
     (let normalized = normalizePropType propType
      in case live of
           None \<Rightarrow> JNull
         | Some plays \<Rightarrow>
             let statMap = extractStatFromPlays plays playerId;
                 flat = flattenPlayerBoxscore statMap;
                 scopedStats =
                   (if normalized \<in> set PITCHING_PROPS
                    then JObj [(''pitching'', coalesce (get_prop flat ''pitching'') (JObj []))]
                    else JObj [(''batting'', coalesce (get_prop flat ''batting'') (JObj []))])
             in (case derivePropValue fmt (JStr normalized) scopedStats of
                   None \<Rightarrow> JNull
                 | Some res \<Rightarrow> res))"

record resolution =
  result :: jsval
  source :: string
  rawStats :: jsval

text \<open>
  \<open>resolveStatForPlayer(options)\<close>.  \<open>boxscoreData\<close> is what
  \<open>getPlayerStatsFromBoxscore\<close> resolves to: the player's entry of the box score,
  undefined when the box score has no such player, null when the fetch fails.  An
  exception of \<open>derivePropValue\<close> is caught and logged; one of \<open>hasMeaningfulStats\<close>
  is not caught.
\<close>

definition resolveStatForPlayer ::
  "(real \<Rightarrow> string) \<Rightarrow> jsval \<Rightarrow> play list option \<Rightarrow> int option \<Rightarrow> string
     \<Rightarrow> resolution option" where
  "resolveStatForPlayer fmt boxscoreData live player prop =
     (if \<not> truthy boxscoreData
      then Some \<lparr>result = JUndefined, source = ''no_boxscore'', rawStats = JUndefined\<rparr>
      else
        let raw = flattenPlayerBoxscore boxscoreData
        in do {
          meaningful \<leftarrow> (if truthy raw then hasMeaningfulStats raw else Some False);
          let extracted =
                (if meaningful
                 then (case derivePropValue fmt (JStr prop) raw of
                         None \<Rightarrow> JUndefined
                       | Some v \<Rightarrow> v)
                 else JUndefined)
          in if meaningful \<and> \<not> nullish extracted
             then Some \<lparr>result = extracted, source = ''boxscore'', rawStats = raw\<rparr>
             else
               let liveResult = getStatFromLiveFeed fmt live player prop
               in Some (if typeof liveResult = ''number''
                        then \<lparr>result = liveResult, source = ''live'', rawStats = raw\<rparr>
                        else \<lparr>result = JUndefined, source = ''missing'', rawStats = raw\<rparr>)
        })"

section \<open>Vocabulary of the claims\<close>

subsection \<open>Grading\<close>

text \<open>The direction as the grader reads it: the lower-cased text of a non-empty
  string, and nothing for any other value.  The enumeration of the specification has
  the two members \<open>over\<close> and \<open>under\<close>.\<close>

definition direction_text :: "jsval \<Rightarrow> string option" where
  "direction_text d = (case d of JStr s \<Rightarrow> if s = [] then None else Some (toLowerCase s) | _ \<Rightarrow> None)"

text \<open>The directions on which the grader throws: an object with an own property
  \<open>toLowerCase\<close> that is neither undefined nor null.\<close>

definition direction_throws :: "jsval \<Rightarrow> bool" where
  "direction_throws d =
     (case d of
        JObj kvs \<Rightarrow>
          (case map_of kvs ''toLowerCase'' of
             Some v \<Rightarrow> v \<noteq> JUndefined \<and> v \<noteq> JNull
           | None \<Rightarrow> False)
      | _ \<Rightarrow> False)"

definition over_under_enum :: "jsval \<Rightarrow> bool" where
  "over_under_enum d = (d = JStr ''over'' \<or> d = JStr ''under'')"

subsection \<open>Prop types\<close>

text \<open>The prop types the specification enumerates, and the case labels of the two
  extractors.\<close>

definition enumerated_prop_types :: "string list" where
  "enumerated_prop_types =
     [''hits'', ''home_runs'', ''rbis'', ''runs'', ''total_bases'', ''walks'', ''stolen_bases'',
      ''singles'', ''doubles'', ''triples'', ''strikeouts_batting'', ''strikeouts_pitching'',
      ''outs_recorded'', ''earned_runs'', ''hits_allowed'', ''walks_allowed'', ''runs_allowed'',
      ''hits_runs_rbis'', ''runs_rbis'']"

definition extract_labels :: "string list" where
  "extract_labels =
     [''hits'', ''strikeouts_batting'', ''home_runs'', ''rbis'', ''runs'', ''runs_scored'',
      ''walks'', ''stolen_bases'', ''doubles'', ''triples'', ''total_bases'', ''singles'',
      ''hits_runs_rbis'', ''runs_rbis'', ''strikeouts_pitching'', ''outs_recorded'',
      ''pitching_outs'', ''earned_runs'', ''hits_allowed'', ''walks_allowed'', ''pitch_count'',
      ''runs_allowed'']"

definition derive_labels :: "string list" where
  "derive_labels =
     [''hits'', ''runs'', ''runs_scored'', ''rbis'', ''home_runs'', ''stolen_bases'', ''walks'',
      ''strikeouts_batting'', ''total_bases'', ''hits_runs_rbis'', ''runs_rbis'', ''singles'',
      ''doubles'', ''triples'', ''strikeouts_pitching'', ''walks_allowed'', ''hits_allowed'',
      ''earned_runs'', ''outs_recorded'']"

subsection \<open>Calendar days\<close>

text \<open>The midnight that begins day \<open>k\<close>, an instant of day \<open>k\<close> given by hour and
  minute, and the day an instant falls on.\<close>

definition day_start :: "int \<Rightarrow> int" where
  "day_start k = k * ms_per_day"



subsection \<open>Sample data\<close>

definition hits_only :: jsval where
  "hits_only = JObj [(''batting'', JObj [(''hits'', JNum (Fin 2))])]"

definition empty_batting :: jsval where
  "empty_batting = JObj [(''batting'', JObj [])]"

definition streak_row :: "string \<Rightarrow> int \<Rightarrow> prop_row" where
  "streak_row res day =
     \<lparr>player_id = ''660271'', prop_type = ''hits'', prop_source = ''mlb_api'', outcome = res,
      game_date = Some (day_start day), prop_value = JNull\<rparr>"

definition recent_first :: "prop_row list" where
  "recent_first =
     [streak_row ''win'' 4, streak_row ''win'' 3, streak_row ''loss'' 2, streak_row ''win'' 1]"

definition value_row :: "int \<Rightarrow> real \<Rightarrow> prop_row" where
  "value_row day v =
     \<lparr>player_id = ''660271'', prop_type = ''hits'', prop_source = ''mlb_api'', outcome = ''win'',
      game_date = Some (day_start day), prop_value = JNum (Fin v)\<rparr>"



definition at_bat :: "int \<Rightarrow> int \<Rightarrow> string \<Rightarrow> int option \<Rightarrow> play" where
  "at_bat b p ev r =
     \<lparr>batter_id = Some b, pitcher_id = Some p, eventType = Some ev, result_rbi = r,
      awayScore = None, homeScore = None, runners = None, count_outs = None\<rparr>"

definition single_and_strikeout :: "play list" where
  "single_and_strikeout =
     [at_bat 660271 543037 ''single'' None, at_bat 660271 543037 ''strikeout'' None]"

subsection \<open>Observations dated at or after an instant\<close>




subsection \<open>Matchup totals as sums\<close>

text \<open>What one event type and what one play add to each total, and the sum of two rows
  of totals.\<close>

definition event_delta :: "string \<Rightarrow> bvp_stats" where
  "event_delta ev = bvp_event ev bvp_zero"

definition play_delta :: "play \<Rightarrow> bvp_stats" where
  "play_delta pl = bvp_step pl bvp_zero"

definition bvp_plus :: "bvp_stats \<Rightarrow> bvp_stats \<Rightarrow> bvp_stats" where
  "bvp_plus s d =
     \<lparr>pa = pa s + pa d, ab = ab s + ab d, hits = hits s + hits d,
      home_runs = home_runs s + home_runs d, strikeouts = strikeouts s + strikeouts d,
      walks = walks s + walks d, rbi = rbi s + rbi d,
      total_bases = total_bases s + total_bases d\<rparr>"

section \<open>Rolling Feature Engine: no leakage\<close>







text \<open>The first attempt of every key gets the database client in place of a history
  array, and so gives null; every value of the result comes from the fallback
  computation.\<close>

lemma first_attempt_is_null:
  "getRollingAverage fmt None playerId propType = Some JNull"
  by (simp add: getRollingAverage_def)




text \<open>With a date-only as-of date and outliers planted on that day and the day after,
  the seven-day average of the two earlier games is still 1.5.\<close>

lemma planted_outlier_example:
  "rolling_value fmt ''660271'' (Some (day_start 100))
      (History [(''660271'', [value_row 100 1000, value_row 98 1, value_row 101 500,
                             value_row 90 2])]) 7 ''hits'' = Some (3 / 2)"
  by (simp add: rolling_value_def getRollingAverage_def fallback_tally_def history_tally_def
        history_step_def add_value_def value_row_def days_before_def day_start_def
        ms_per_day_def Let_def)

section \<open>Properties of the Outcome Grader\<close>

lemma toLowerCase_Nil_iff: "toLowerCase s = [] \<longleftrightarrow> s = []"
  by (simp add: toLowerCase_def)

lemma lowered_truthy:
  "lowered_direction d = Some dir \<Longrightarrow> truthy dir \<longleftrightarrow> direction_text d \<noteq> None"
  by (cases d) (auto simp: direction_text_def toLowerCase_Nil_iff split: if_splits)

lemma lowered_text:
  "lowered_direction d = Some dir \<Longrightarrow> direction_text d = Some t \<Longrightarrow> dir = JStr t"
  by (cases d) (auto simp: direction_text_def split: if_splits)

text \<open>
  Claim C2, as stated, fails: a direction that is no member of the over/under
  enumeration is not graded \<open>invalid\<close>.  With value 2, line 1.5 and direction
  \<open>sideways\<close> the grade is \<open>loss\<close>.
\<close>

theorem determineStatus_unknown_direction_counterexample:
  "\<not> over_under_enum (JStr ''sideways'')
   \<and> determineStatus (JNum (Fin 2)) (JNum (Fin (3/2))) (JStr ''sideways'') = Some ''loss''"
  by (simp add: over_under_enum_def determineStatus_def toLowerCase_def lower_char_def)

lemma nullish_iff: "nullish v \<longleftrightarrow> v = JUndefined \<or> v = JNull"
  by (cases v) simp_all

lemma lowered_throws: "lowered_direction d = None \<longleftrightarrow> direction_throws d"
  by (cases d) (auto simp: direction_throws_def nullish_iff split: option.splits)

lemma throws_no_text: "direction_throws d \<Longrightarrow> direction_text d = None"
  by (cases d) (auto simp: direction_throws_def direction_text_def)

text \<open>
  Claim C2, amended.  When the direction is an object with an own property
  \<open>toLowerCase\<close> that holds neither undefined nor null nor a function, grading throws
  a TypeError.  For every other direction: the grade is \<open>invalid\<close> if the value or the
  line is not of type number or the direction is missing, not a string or empty;
  otherwise \<open>push\<close> if value and line are equal; otherwise \<open>win\<close> if the lower-cased
  direction is \<open>over\<close> and the value exceeds the line, or it is \<open>under\<close> and the value
  is below the line; and \<open>loss\<close> in every remaining case, which includes every other
  non-empty direction.
\<close>

theorem determineStatus_contract:
  "(direction_throws d \<longrightarrow> determineStatus a l d = None)
   \<and> (\<not> direction_throws d
        \<and> (typeof a \<noteq> ''number'' \<or> typeof l \<noteq> ''number'' \<or> direction_text d = None)
        \<longrightarrow> determineStatus a l d = Some ''invalid'')
   \<and> (direction_text d = Some t \<and> num_eq x y
        \<longrightarrow> determineStatus (JNum x) (JNum y) d = Some ''push'')
   \<and> (direction_text d = Some t \<and> \<not> num_eq x y
        \<longrightarrow> determineStatus (JNum x) (JNum y) d =
             Some (if (t = ''over'' \<and> num_lt y x) \<or> (t = ''under'' \<and> num_lt x y)
                   then ''win'' else ''loss''))"
proof -
  have c0: "direction_throws d \<longrightarrow> determineStatus a l d = None"
    using lowered_throws[of d] by (auto simp: determineStatus_def)
  have rest: "(typeof a \<noteq> ''number'' \<or> typeof l \<noteq> ''number'' \<or> direction_text d = None
            \<longrightarrow> determineStatus a l d = Some ''invalid'')
       \<and> (direction_text d = Some t \<and> num_eq x y
            \<longrightarrow> determineStatus (JNum x) (JNum y) d = Some ''push'')
       \<and> (direction_text d = Some t \<and> \<not> num_eq x y
            \<longrightarrow> determineStatus (JNum x) (JNum y) d =
                 Some (if (t = ''over'' \<and> num_lt y x) \<or> (t = ''under'' \<and> num_lt x y)
                       then ''win'' else ''loss''))"
    if nt: "\<not> direction_throws d"
  proof -
    from nt lowered_throws[of d] obtain dir where dir: "lowered_direction d = Some dir"
      by auto
    have tr: "truthy dir \<longleftrightarrow> direction_text d \<noteq> None" by (rule lowered_truthy[OF dir])
    have c1: "typeof a \<noteq> ''number'' \<or> typeof l \<noteq> ''number'' \<or> direction_text d = None
              \<longrightarrow> determineStatus a l d = Some ''invalid''"
      using tr by (cases a; cases l) (auto simp: determineStatus_def dir)
    have c2: "direction_text d = Some t \<and> num_eq x y
              \<longrightarrow> determineStatus (JNum x) (JNum y) d = Some ''push''"
      using tr by (auto simp: determineStatus_def dir)
    have c3: "direction_text d = Some t \<and> \<not> num_eq x y
              \<longrightarrow> determineStatus (JNum x) (JNum y) d =
                   Some (if (t = ''over'' \<and> num_lt y x) \<or> (t = ''under'' \<and> num_lt x y)
                         then ''win'' else ''loss'')"
      using tr lowered_text[OF dir] by (auto simp: determineStatus_def dir)
    from c1 c2 c3 show ?thesis by blast
  qed
  show ?thesis
  proof (cases "direction_throws d")
    case True
    with c0 throws_no_text[of d] show ?thesis by simp
  next
    case False
    with c0 rest show ?thesis by blast
  qed
qed

theorem determineStatus_contract_witness:
  "direction_throws (JObj [(''toLowerCase'', JNum (Fin 1))])
   \<and> determineStatus (JNum (Fin 2)) (JNum (Fin (3/2))) (JObj [(''toLowerCase'', JNum (Fin 1))])
        = None
   \<and> \<not> direction_throws (JStr ''Over'')
   \<and> determineStatus (JStr ''2'') (JNum (Fin (3/2))) (JStr ''Over'') = Some ''invalid''
   \<and> determineStatus (JNum (Fin 2)) (JNum (Fin (3/2))) (JBool True) = Some ''invalid''
   \<and> determineStatus (JNum (Fin (3/2))) (JNum (Fin (3/2))) (JStr ''Over'') = Some ''push''
   \<and> determineStatus (JNum (Fin 2)) (JNum (Fin (3/2))) (JStr ''Over'') = Some ''win''"
proof -
  have h0: "direction_throws (JObj [(''toLowerCase'', JNum (Fin 1))])"
    by (simp add: direction_throws_def)
  have h1: "\<not> direction_throws (JStr ''Over'')" "\<not> direction_throws (JBool True)"
    by (simp_all add: direction_throws_def)
  have t: "direction_text (JStr ''Over'') = Some ''over''"
    by (simp add: direction_text_def toLowerCase_def lower_char_def)
  have n: "direction_text (JBool True) = None"
    by (simp add: direction_text_def)
  from determineStatus_contract[of "JObj [(''toLowerCase'', JNum (Fin 1))]"
         "JNum (Fin 2)" "JNum (Fin (3/2))"]
       determineStatus_contract[of "JStr ''Over''" "JStr ''2''" "JNum (Fin (3/2))" "''over''"
         "Fin (3/2)" "Fin (3/2)"]
       determineStatus_contract[of "JStr ''Over''" "JStr ''2''" "JNum (Fin (3/2))" "''over''"
         "Fin 2" "Fin (3/2)"]
       determineStatus_contract[of "JBool True" "JNum (Fin 2)" "JNum (Fin (3/2))"]
       h0 h1 t n
  show ?thesis by simp
qed

section \<open>Properties of the Resolution Chain\<close>

text \<open>
  Claim C3, as stated, fails: with the primary entry missing and a play log of one
  single and one strikeout by the player, resolving \<open>hits\<close> gives no value and the
  source \<open>no_boxscore\<close>, not the value 1 from the fallback.
\<close>

theorem missing_boxscore_counterexample:
  "resolveStatForPlayer (\<lambda>r. []) JUndefined (Some single_and_strikeout) (Some 660271) ''hits''
     = Some \<lparr>result = JUndefined, source = ''no_boxscore'', rawStats = JUndefined\<rparr>"
  by (simp add: resolveStatForPlayer_def)

text \<open>
  Claim C3, amended.  When the player's box-score entry is missing entirely, the chain
  returns at once, with no value and the source \<open>no_boxscore\<close>, whatever the play
  log holds.  The play-by-play fallback is consulted when the entry is there and
  carries no meaningful stats: then the chain reports the fallback's value with source
  \<open>live\<close> if it is a number, and no value with source \<open>missing\<close> if it is not.
\<close>

theorem resolveStatForPlayer_chain:
  "(\<not> truthy boxscoreData \<longrightarrow>
      resolveStatForPlayer fmt boxscoreData live player prop
        = Some \<lparr>result = JUndefined, source = ''no_boxscore'', rawStats = JUndefined\<rparr>)
   \<and> (truthy boxscoreData \<and> hasMeaningfulStats (flattenPlayerBoxscore boxscoreData) = Some False \<longrightarrow>
      resolveStatForPlayer fmt boxscoreData live player prop
        = Some (let liveResult = getStatFromLiveFeed fmt live player prop
                in if typeof liveResult = ''number''
                   then \<lparr>result = liveResult, source = ''live'',
                         rawStats = flattenPlayerBoxscore boxscoreData\<rparr>
                   else \<lparr>result = JUndefined, source = ''missing'',
                         rawStats = flattenPlayerBoxscore boxscoreData\<rparr>))"
  by (simp add: resolveStatForPlayer_def Let_def flattenPlayerBoxscore_def)

theorem resolveStatForPlayer_chain_witness:
  "\<not> truthy JNull
   \<and> resolveStatForPlayer (\<lambda>r. []) JNull (Some single_and_strikeout) (Some 660271) ''hits''
        = Some \<lparr>result = JUndefined, source = ''no_boxscore'', rawStats = JUndefined\<rparr>
   \<and> truthy (JObj [(''stats'', JObj [])])
   \<and> hasMeaningfulStats (flattenPlayerBoxscore (JObj [(''stats'', JObj [])])) = Some False
   \<and> source (the (resolveStatForPlayer (\<lambda>r. []) (JObj [(''stats'', JObj [])]) None
                    (Some 660271) ''hits'')) = ''missing''"
proof -
  have f: "flattenPlayerBoxscore (JObj [(''stats'', JObj [])])
             = JObj [(''player_id'', JUndefined), (''team_abbr'', JNull)]"
    by (simp add: flattenPlayerBoxscore_def get_opt_def js_or_def spread_into_def assign_if_def
          Let_def)
  have m: "hasMeaningfulStats (flattenPlayerBoxscore (JObj [(''stats'', JObj [])])) = Some False"
    by (simp add: f hasMeaningfulStats_def destructure_default_def any_number_field_def Let_def)
  have l: "getStatFromLiveFeed (\<lambda>r. []) None (Some 660271) ''hits'' = JNull"
    by (simp add: getStatFromLiveFeed_def Let_def)
  from resolveStatForPlayer_chain[of JNull "\<lambda>r. []" "Some single_and_strikeout" "Some 660271" "''hits''"]
       resolveStatForPlayer_chain[of "JObj [(''stats'', JObj [])]" "\<lambda>r. []" None "Some 660271" "''hits''"]
       m l
  show ?thesis by (simp add: Let_def)
qed

section \<open>Properties of the Stat Extractor\<close>

text \<open>In \<open>derivePropValue\<close> the composite \<open>hits_runs_rbis\<close> follows the policy for
  missing addends: null when all three are absent, and absent addends zero when one
  is present.\<close>

lemma hits_runs_rbis_policy_in_derivePropValue:
  "derivePropValue fmt (JStr ''hits_runs_rbis'') empty_batting = Some JNull
   \<and> derivePropValue fmt (JStr ''hits_runs_rbis'') hits_only = Some (JNum (Fin 2))"
  by (simp add: hits_only_def empty_batting_def derivePropValue_def derive_switch_def
        destructure_default_def js_or_def get_opt_def js_add_def coalesce_def Let_def)

text \<open>
  Claim C4.  The other composites do not follow that policy.  In \<open>derivePropValue\<close>,
  \<open>singles\<close> of a block with hits 2 and no other addend is NaN instead of 2, and
  \<open>runs_rbis\<close> of a block without addends is NaN instead of null.  In
  \<open>extractStatForPropType\<close> each composite of a block without addends is 0 instead
  of null.
\<close>

theorem composite_missing_addend_failure:
  "derivePropValue fmt (JStr ''singles'') hits_only = Some (JNum NaN)
   \<and> derivePropValue fmt (JStr ''runs_rbis'') empty_batting = Some (JNum NaN)
   \<and> extractStatForPropType fmt empty_batting (JStr ''singles'') = Some (JNum (Fin 0))
   \<and> extractStatForPropType fmt empty_batting (JStr ''hits_runs_rbis'') = Some (JNum (Fin 0))
   \<and> extractStatForPropType fmt empty_batting (JStr ''runs_rbis'') = Some (JNum (Fin 0))"
  by (simp add: hits_only_def empty_batting_def derivePropValue_def derive_switch_def
        destructure_default_def js_or_def get_throw_def js_sub_def js_add_def num_sub_def
        extractStatForPropType_def extract_switch_def num_or_zero_def num_def coalesce_def
        Let_def)

theorem composite_missing_addend_failure_witness:
  "derivePropValue (\<lambda>r. []) (JStr ''singles'') hits_only = Some (JNum NaN)
   \<and> extractStatForPropType (\<lambda>r. []) empty_batting (JStr ''singles'') = Some (JNum (Fin 0))"
  using composite_missing_addend_failure[of "\<lambda>r. []"] by blast

lemma extract_switch_default:
  "t \<notin> set extract_labels \<Longrightarrow> extract_switch fmt b p t = Some JNull"
  unfolding extract_labels_def extract_switch_def by simp

lemma derive_switch_default:
  "t \<notin> set derive_labels \<Longrightarrow> derive_switch fmt b p t = Some JUndefined"
  unfolding derive_labels_def derive_switch_def by simp

text \<open>
  Claim C5, as stated, fails: \<open>runs_scored\<close> is in neither enumeration of the valid
  prop types, and the extractor answers it with the runs of the block.
\<close>

theorem runs_scored_counterexample:
  "''runs_scored'' \<notin> set VALID_PROP_TYPES \<and> ''runs_scored'' \<notin> set enumerated_prop_types
   \<and> extractStatForPropType (\<lambda>r. [])
        (JObj [(''batting'', JObj [(''runs'', JNum (Fin 2))])]) (JStr ''runs_scored'')
      = Some (JNum (Fin 2))"
  by (simp add: VALID_PROP_TYPES_def enumerated_prop_types_def extractStatForPropType_def
        extract_switch_def js_or_def num_def Let_def)

text \<open>
  Claim C5, amended.  For every stats block and every prop type that is none of the
  case labels of the extractor (the enumerated types and the aliases the \<open>switch\<close>
  names besides them), and for every prop type that is not a string,
  \<open>extractStatForPropType\<close> returns null and \<open>derivePropValue\<close> returns undefined;
  neither throws and neither returns a number.
\<close>

theorem unknown_prop_type_default:
  "(t \<notin> set extract_labels \<longrightarrow> extractStatForPropType fmt s (JStr t) = Some JNull)
   \<and> (t \<notin> set derive_labels \<longrightarrow> derivePropValue fmt (JStr t) s = Some JUndefined)
   \<and> (\<not> is_str pt \<longrightarrow> extractStatForPropType fmt s pt = Some JNull
                        \<and> derivePropValue fmt pt s = Some JUndefined)"
proof -
  have a: "t \<notin> set extract_labels \<longrightarrow> extractStatForPropType fmt s (JStr t) = Some JNull"
    by (simp add: extractStatForPropType_def Let_def extract_switch_default)
  have b: "t \<notin> set derive_labels \<longrightarrow> derivePropValue fmt (JStr t) s = Some JUndefined"
    by (simp add: derivePropValue_def Let_def derive_switch_default)
  have c: "\<not> is_str pt \<longrightarrow> extractStatForPropType fmt s pt = Some JNull
                        \<and> derivePropValue fmt pt s = Some JUndefined"
    by (cases pt) (simp_all add: extractStatForPropType_def derivePropValue_def Let_def)
  from a b c show ?thesis by blast
qed

theorem unknown_prop_type_default_witness:
  "''strikeouts'' \<notin> set extract_labels \<and> ''strikeouts'' \<notin> set derive_labels
   \<and> \<not> is_str (JNum (Fin 7))
   \<and> extractStatForPropType (\<lambda>r. [])
        (JObj [(''batting'', JObj [(''strikeOuts'', JNum (Fin 2))])]) (JStr ''strikeouts'')
      = Some JNull
   \<and> derivePropValue (\<lambda>r. []) (JStr ''strikeouts'')
        (JObj [(''batting'', JObj [(''strikeOuts'', JNum (Fin 2))])]) = Some JUndefined
   \<and> extractStatForPropType (\<lambda>r. [])
        (JObj [(''batting'', JObj [(''strikeOuts'', JNum (Fin 2))])]) (JNum (Fin 7)) = Some JNull"
proof -
  have h1: "''strikeouts'' \<notin> set extract_labels" by (simp add: extract_labels_def)
  have h2: "''strikeouts'' \<notin> set derive_labels" by (simp add: derive_labels_def)
  have h3: "\<not> is_str (JNum (Fin 7))" by simp
  from unknown_prop_type_default[of "''strikeouts''" "\<lambda>r. []"
         "JObj [(''batting'', JObj [(''strikeOuts'', JNum (Fin 2))])]" "JNum (Fin 7)"] h1 h2 h3
  show ?thesis by blast
qed

text \<open>
  Claim C10.  The result of \<open>extractStatForPropType\<close> is not always a finite number
  or null: innings pitched reading \<open>Infinity\<close>, with no \<open>outs\<close> field, come back as
  the number Infinity for \<open>outs_recorded\<close>.
\<close>

theorem infinite_innings_propagates:
  "extractStatForPropType fmt
     (JObj [(''pitching'', JObj [(''inningsPitched'', JStr ''Infinity'')])])
     (JStr ''outs_recorded'') = Some (JNum PosInf)"
  by (simp add: extractStatForPropType_def extract_switch_def js_or_def num_def ipToOuts_def
        split_dot_def string_to_number_def trim_def is_ws_def parse_unsigned_decimal_def
        Let_def)

theorem infinite_innings_propagates_witness:
  "extractStatForPropType (\<lambda>r. [])
     (JObj [(''pitching'', JObj [(''inningsPitched'', JStr ''Infinity'')])])
     (JStr ''outs_recorded'') = Some (JNum PosInf)"
  using infinite_innings_propagates[of "\<lambda>r. []"] .

text \<open>Nor does it always return: a field holding an object that hides \<open>toString\<close>
  makes \<open>Number\<close> throw.\<close>

lemma unconvertible_field_throws:
  "extractStatForPropType fmt
     (JObj [(''batting'', JObj [(''hits'', JObj [(''toString'', JNum (Fin 1))])])])
     (JStr ''hits'') = None"
  by (simp add: extractStatForPropType_def extract_switch_def js_or_def num_def has_own_def
        Let_def)

section \<open>Properties of the Participation Classifier\<close>

lemma values_fields:
  "list_ex positive_number (object_values v) \<longleftrightarrow> (\<exists>k x. get_prop v k = JNum x \<and> num_lt (Fin 0) x)"
proof (cases v)
  case (JObj kvs)
  have d: "distinct (map fst (AList.clearjunk kvs))" by (rule distinct_clearjunk)
  have ran: "snd ` set (AList.clearjunk kvs) = ran (map_of kvs)"
    using ran_distinct[OF d] by (simp add: map_of_clearjunk)
  show ?thesis
  proof
    assume "list_ex positive_number (object_values v)"
    then obtain w where w: "w \<in> snd ` set (AList.clearjunk kvs)" "positive_number w"
      using JObj by (auto simp: list_ex_iff)
    from w(1) ran obtain k where k: "map_of kvs k = Some w" by (auto simp: ran_def)
    from w(2) obtain x where "w = JNum x" "num_lt (Fin 0) x" by (cases w) auto
    with k JObj show "\<exists>k x. get_prop v k = JNum x \<and> num_lt (Fin 0) x"
      by (intro exI[of _ k] exI[of _ x]) simp
  next
    assume "\<exists>k x. get_prop v k = JNum x \<and> num_lt (Fin 0) x"
    then obtain k x where kx: "get_prop v k = JNum x" "num_lt (Fin 0) x" by blast
    from kx(1) JObj have "map_of kvs k = Some (JNum x)" by (auto split: option.splits)
    then have "JNum x \<in> snd ` set (AList.clearjunk kvs)" using ran by (auto simp: ran_def)
    then obtain e where "e \<in> set (AList.clearjunk kvs)" "snd e = JNum x" by auto
    with kx(2) JObj show "list_ex positive_number (object_values v)"
      by (auto simp: list_ex_iff intro!: bexI[of _ e])
  qed
qed (auto simp: list_ex_iff)

text \<open>
  Claim C6, as stated, fails: a block without a positive field does not always yield
  false.  The empty block, and a block whose batting fields are all zero and which has
  no pitching sub-block, yield undefined.
\<close>

theorem empty_block_counterexample:
  "didPlayerParticipate (JObj []) = JUndefined
   \<and> didPlayerParticipate
        (JObj [(''batting'', JObj [(''hits'', JNum (Fin 0)), (''atBats'', JNum (Fin 0))])])
      = JUndefined"
  by (simp add: didPlayerParticipate_def js_and_def js_or_def)

text \<open>
  Claim C6, amended.  \<open>didPlayerParticipate\<close> returns true if and only if some field of
  the batting or of the pitching sub-block is a number strictly greater than zero.  In
  every other case, that of a block whose fields are all absent or zero and that of an
  empty block among them, it returns a falsy value: the value of \<open>stats.pitching\<close>
  itself when the stats are an object whose pitching sub-block is absent or falsy
  (undefined for a block without that key), and false otherwise.
\<close>

theorem didPlayerParticipate_iff:
  "(didPlayerParticipate s = JBool True \<longleftrightarrow>
      (\<exists>k x. (get_prop (get_prop s ''batting'') k = JNum x
               \<or> get_prop (get_prop s ''pitching'') k = JNum x) \<and> num_lt (Fin 0) x))
   \<and> (\<not> (\<exists>k x. (get_prop (get_prop s ''batting'') k = JNum x
                  \<or> get_prop (get_prop s ''pitching'') k = JNum x) \<and> num_lt (Fin 0) x)
        \<longrightarrow> didPlayerParticipate s =
             (if truthy s \<and> typeof s = ''object'' \<and> \<not> truthy (get_prop s ''pitching'')
              then get_prop s ''pitching'' else JBool False))
   \<and> (didPlayerParticipate s \<noteq> JBool True \<longrightarrow> \<not> truthy (didPlayerParticipate s))"
proof -
  let ?B = "get_prop s ''batting''" and ?P = "get_prop s ''pitching''"
  let ?eb = "list_ex positive_number (object_values ?B)"
  let ?ep = "list_ex positive_number (object_values ?P)"
  let ?some = "\<exists>k x. (get_prop ?B k = JNum x \<or> get_prop ?P k = JNum x) \<and> num_lt (Fin 0) x"
  have fb: "\<not> truthy ?B \<Longrightarrow> \<not> ?eb" by (cases ?B) (auto simp: list_ex_iff)
  have fp: "\<not> truthy ?P \<Longrightarrow> \<not> ?ep" by (cases ?P) (auto simp: list_ex_iff)
  have nobj: "\<not> truthy s \<or> typeof s \<noteq> ''object'' \<Longrightarrow> ?B = JUndefined \<and> ?P = JUndefined"
    by (cases s) auto
  have res: "didPlayerParticipate s = JBool True \<longleftrightarrow> ?eb \<or> ?ep"
  proof (cases "\<not> truthy s \<or> typeof s \<noteq> ''object''")
    case True
    with nobj show ?thesis by (auto simp: didPlayerParticipate_def)
  next
    case False
    then show ?thesis using fb fp
      by (cases "truthy ?B"; cases "truthy ?P")
         (auto simp: didPlayerParticipate_def js_and_def js_or_def Let_def)
  qed
  have exact: "didPlayerParticipate s =
                 (if truthy s \<and> typeof s = ''object'' \<and> \<not> truthy ?P then ?P else JBool False)"
    if no: "\<not> (?eb \<or> ?ep)"
    using no
    by (cases "truthy ?B"; cases "truthy ?P")
       (auto simp: didPlayerParticipate_def js_and_def js_or_def Let_def)
  have falsy: "didPlayerParticipate s \<noteq> JBool True \<longrightarrow> \<not> truthy (didPlayerParticipate s)"
    by (auto simp: didPlayerParticipate_def js_and_def js_or_def Let_def split: if_splits)
  have eq: "?eb \<or> ?ep \<longleftrightarrow> ?some"
    unfolding values_fields by blast
  from res eq have c1: "didPlayerParticipate s = JBool True \<longleftrightarrow> ?some" by simp
  from exact eq have c2: "\<not> ?some \<longrightarrow> didPlayerParticipate s =
                 (if truthy s \<and> typeof s = ''object'' \<and> \<not> truthy ?P then ?P else JBool False)"
    by blast
  from c1 c2 falsy show ?thesis by blast
qed

theorem didPlayerParticipate_iff_witness:
  "didPlayerParticipate
     (JObj [(''batting'', JObj [(''hits'', JNum (Fin 0)), (''atBats'', JNum (Fin 4))])])
     = JBool True
   \<and> didPlayerParticipate (JObj [(''batting'', JObj [(''hits'', JNum (Fin 0))]),
                               (''pitching'', JObj [(''outs'', JNum (Fin 0))])]) = JBool False
   \<and> didPlayerParticipate (JObj []) = JUndefined
   \<and> \<not> truthy (didPlayerParticipate (JObj []))"
proof -
  let ?s = "JObj [(''batting'', JObj [(''hits'', JNum (Fin 0)), (''atBats'', JNum (Fin 4))])]"
  let ?z = "JObj [(''batting'', JObj [(''hits'', JNum (Fin 0))]),
                  (''pitching'', JObj [(''outs'', JNum (Fin 0))])]"
  have "get_prop (get_prop ?s ''batting'') ''atBats'' = JNum (Fin 4) \<and> num_lt (Fin 0) (Fin 4)"
    by simp
  then have a: "didPlayerParticipate ?s = JBool True"
    using didPlayerParticipate_iff[of ?s] by blast
  have "\<not> (\<exists>k x. (get_prop (get_prop ?z ''batting'') k = JNum x
               \<or> get_prop (get_prop ?z ''pitching'') k = JNum x) \<and> num_lt (Fin 0) x)"
    by (auto split: if_splits)
  then have b: "didPlayerParticipate ?z = JBool False"
    using didPlayerParticipate_iff[of ?z] by simp
  have n: "\<not> (\<exists>k x. (get_prop (get_prop (JObj []) ''batting'') k = JNum x
               \<or> get_prop (get_prop (JObj []) ''pitching'') k = JNum x) \<and> num_lt (Fin 0) x)"
    by simp
  then have c: "didPlayerParticipate (JObj []) = JUndefined"
    using didPlayerParticipate_iff[of "JObj []"] by simp
  from n have d: "\<not> truthy (didPlayerParticipate (JObj []))"
    using didPlayerParticipate_iff[of "JObj []"] by blast
  from a b c d show ?thesis by blast
qed

section \<open>Properties of the Streak Engine\<close>

text \<open>
  Claim C7.  On the outcomes win, win, loss, win, most recent first, the backfill
  script's \<open>computeStreaks\<close> reports a hot streak of 1, the run at the old end of the
  sequence, where the run ending at the most recent outcome has length 2.
\<close>

theorem backfill_streak_of_oldest_run:
  "computeStreaks_backfill recent_first
     = [StreakProfile ''660271'' ''hits'' ''mlb_api'' ''hot'' 1]"
  by (simp add: recent_first_def streak_row_def computeStreaks_backfill_def win_or_loss_def
        mapOutcomeToStreakType_def normalizePropType_def toLowerCase_def lower_char_def
        is_ws_def)

theorem backfill_streak_of_oldest_run_witness:
  "map streak_type (computeStreaks_backfill recent_first) = [''hot'']
   \<and> map streak_count (computeStreaks_backfill recent_first) = [1]"
  using backfill_streak_of_oldest_run by simp

text \<open>The profile generator sorts by ascending date before it walks, and reports the
  hot streak of 2 on the same rows.\<close>

lemma profiles_streak_of_newest_run:
  "computeStreaks_profiles recent_first
     = [StreakProfile ''660271'' ''hits'' ''mlb_api'' ''hot'' 2]"
  by (simp add: recent_first_def streak_row_def computeStreaks_profiles_def group_rows_def
        group_profile_def sort_by_date_def profile_step_def normalizePropType_def
        toLowerCase_def lower_char_def is_ws_def day_start_def ms_per_day_def Let_def)

section \<open>Rolling Feature Engine: the calendar window\<close>

text \<open>
  Claim C8.  In history mode the window is not applied: with the as-of date day 100 and a window
  of 7 days, a game of day 10 with 4 hits is averaged with the game of day 99 with 0
  hits, giving 2 where the window alone gives 0.
\<close>

theorem history_mode_ignores_window:
  "rolling_value fmt ''660271'' (Some (day_start 100))
     (History [(''660271'', [value_row 10 4, value_row 99 0])]) 7 ''hits'' = Some 2"
  by (simp add: rolling_value_def getRollingAverage_def fallback_tally_def history_tally_def
        history_step_def add_value_def value_row_def days_before_def day_start_def
        ms_per_day_def Let_def)

theorem history_mode_ignores_window_witness:
  "rolling_value (\<lambda>r. []) ''660271'' (Some (day_start 100))
     (History [(''660271'', [value_row 10 4, value_row 99 0])]) 7 ''hits'' = Some 2"
  using history_mode_ignores_window[of "\<lambda>r. []"] .

text \<open>In box-score mode a box dated before the start of the window is passed over.\<close>

lemma box_before_window_skipped:
  "gameDate bx = Some (Some b) \<Longrightarrow> b < d - int days * ms_per_day
   \<Longrightarrow> box_step fmt pid (Some d) (days_before (Some d) days) pt bx acc = Some acc"
  by (simp add: box_step_def days_before_def)

section \<open>Properties of the Matchup Aggregator\<close>

lemma bvp_event_fields:
  "pa (bvp_event ev s) = pa s + pa (event_delta ev)"
  "ab (bvp_event ev s) = ab s + ab (event_delta ev)"
  "hits (bvp_event ev s) = hits s + hits (event_delta ev)"
  "home_runs (bvp_event ev s) = home_runs s + home_runs (event_delta ev)"
  "strikeouts (bvp_event ev s) = strikeouts s + strikeouts (event_delta ev)"
  "walks (bvp_event ev s) = walks s + walks (event_delta ev)"
  "rbi (bvp_event ev s) = rbi s + rbi (event_delta ev)"
  "total_bases (bvp_event ev s) = total_bases s + total_bases (event_delta ev)"
  by (simp_all add: event_delta_def bvp_event_def bvp_zero_def)

lemma bvp_step_fields:
  "pa (bvp_step pl s) = pa s + pa (play_delta pl)"
  "ab (bvp_step pl s) = ab s + ab (play_delta pl)"
  "hits (bvp_step pl s) = hits s + hits (play_delta pl)"
  "home_runs (bvp_step pl s) = home_runs s + home_runs (play_delta pl)"
  "strikeouts (bvp_step pl s) = strikeouts s + strikeouts (play_delta pl)"
  "walks (bvp_step pl s) = walks s + walks (play_delta pl)"
  "rbi (bvp_step pl s) = rbi s + rbi (play_delta pl)"
  "total_bases (bvp_step pl s) = total_bases s + total_bases (play_delta pl)"
  by (simp_all add: bvp_step_def play_delta_def bvp_zero_def Let_def bvp_event_fields
        split: option.splits)

lemma bvp_step_plus: "bvp_step pl s = bvp_plus s (play_delta pl)"
  by (rule bvp_stats.equality) (simp_all add: bvp_step_fields bvp_plus_def)

lemma bvp_plus_commute: "bvp_plus (bvp_plus s d) e = bvp_plus (bvp_plus s e) d"
  by (simp add: bvp_plus_def)

lemma bvp_step_commute: "bvp_step x \<circ> bvp_step y = bvp_step y \<circ> bvp_step x"
proof
  fix s
  show "(bvp_step x \<circ> bvp_step y) s = (bvp_step y \<circ> bvp_step x) s"
    by (simp only: o_apply bvp_step_plus) (rule bvp_plus_commute)
qed

text \<open>
  Claim C9.  For every batter, pitcher and list of plays, \<open>computeBvpStats\<close> gives the
  same answer on every permutation of the list: the same decision between null and an
  aggregate, and in the aggregate the same plate appearances, at-bats, hits, home runs,
  strikeouts, walks, RBI and total bases.
\<close>

theorem computeBvpStats_order_independent:
  assumes "mset plays = mset plays'"
  shows "computeBvpStats batterId pitcherId plays = computeBvpStats batterId pitcherId plays'"
proof -
  let ?P = "\<lambda>p. batter_id p = batterId \<and> pitcher_id p = pitcherId"
  have m: "mset (filter ?P plays) = mset (filter ?P plays')"
    by (simp only: mset_filter assms)
  then have len: "length (filter ?P plays) = length (filter ?P plays')"
    by (rule mset_eq_length)
  have "fold bvp_step (filter ?P plays) = fold bvp_step (filter ?P plays')"
  proof (rule fold_multiset_equiv)
    fix x y
    show "bvp_step x \<circ> bvp_step y = bvp_step y \<circ> bvp_step x"
      by (rule bvp_step_commute)
  next
    show "mset (filter ?P plays) = mset (filter ?P plays')" by (rule m)
  qed
  then have f: "fold bvp_step (filter ?P plays) bvp_zero
                  = fold bvp_step (filter ?P plays') bvp_zero"
    by (rule fun_cong)
  have e: "length (filter ?P plays) = 0 \<longleftrightarrow> length (filter ?P plays') = 0"
    by (simp only: len)
  show ?thesis
    unfolding computeBvpStats_def Let_def by (simp only: e f)
qed

theorem computeBvpStats_order_independent_witness:
  "mset [at_bat 1 2 ''double'' (Some 1), at_bat 1 2 ''walk'' None, at_bat 3 2 ''single'' None]
     = mset [at_bat 3 2 ''single'' None, at_bat 1 2 ''walk'' None, at_bat 1 2 ''double'' (Some 1)]
   \<and> computeBvpStats (Some 1) (Some 2)
        [at_bat 1 2 ''double'' (Some 1), at_bat 1 2 ''walk'' None, at_bat 3 2 ''single'' None]
      = computeBvpStats (Some 1) (Some 2)
          [at_bat 3 2 ''single'' None, at_bat 1 2 ''walk'' None, at_bat 1 2 ''double'' (Some 1)]
   \<and> computeBvpStats (Some 1) (Some 2)
        [at_bat 3 2 ''single'' None, at_bat 1 2 ''walk'' None, at_bat 1 2 ''double'' (Some 1)]
      = Some \<lparr>pa = 2, ab = 1, hits = 1, home_runs = 0, strikeouts = 0, walks = 1, rbi = 1,
              total_bases = 2\<rparr>"
proof -
  have h: "mset [at_bat 1 2 ''double'' (Some 1), at_bat 1 2 ''walk'' None, at_bat 3 2 ''single'' None]
     = mset [at_bat 3 2 ''single'' None, at_bat 1 2 ''walk'' None, at_bat 1 2 ''double'' (Some 1)]"
    by (simp add: add_mset_commute)
  have v: "computeBvpStats (Some 1) (Some 2)
        [at_bat 3 2 ''single'' None, at_bat 1 2 ''walk'' None, at_bat 1 2 ''double'' (Some 1)]
      = Some \<lparr>pa = 2, ab = 1, hits = 1, home_runs = 0, strikeouts = 0, walks = 1, rbi = 1,
              total_bases = 2\<rparr>"
    by code_simp
  from computeBvpStats_order_independent[OF h, of "Some 1" "Some 2"] h v
  show ?thesis by simp
qed

end
